theory Spec2Isabelle
  imports Complex_Main "HOL-Library.Multiset" "HOL-Library.Sublist"
begin

section \<open>Constants of the harvest orchestrator\<close>

text \<open>
  The quota constants of the brain module. \<open>MAX_QUOTA_PER_DAY / QUOTA_COST_PER_FETCH\<close>
  is the exact quotient 2500 in the source's floating point, so natural-number
  division gives the same value.
\<close>

definition QUOTA_COST_PER_FETCH :: nat where
  "QUOTA_COST_PER_FETCH = 4"

definition MAX_QUOTA_PER_DAY :: nat where
  "MAX_QUOTA_PER_DAY = 10000"

definition COMMENTS_PER_BATCH :: nat where
  "COMMENTS_PER_BATCH = 100"

definition MAX_COMMENTS_PER_DAY :: nat where
  "MAX_COMMENTS_PER_DAY = (MAX_QUOTA_PER_DAY div QUOTA_COST_PER_FETCH) * COMMENTS_PER_BATCH"

text \<open>The split-layout class (three storage paths).\<close>

definition MAX_COMMENTS_PER_VIDEO :: nat where
  "MAX_COMMENTS_PER_VIDEO = 10000"

definition MAX_VIDEOS_PER_UPDATE :: nat where
  "MAX_VIDEOS_PER_UPDATE = 50"

definition CHAIN_LENGTH :: nat where
  "CHAIN_LENGTH = 3"

text \<open>The legacy class (one storage file) has its own values.\<close>

definition MAX_COMMENTS_PER_VIDEO_legacy :: nat where
  "MAX_COMMENTS_PER_VIDEO_legacy = 100"

definition MAX_VIDEOS_PER_UPDATE_legacy :: nat where
  "MAX_VIDEOS_PER_UPDATE_legacy = 5"

definition CHAIN_LENGTH_legacy :: nat where
  "CHAIN_LENGTH_legacy = 2"

section \<open>Data model\<close>

text \<open>
  \<open>IMarkovMap\<close> is a JavaScript object from serialized chain keys to successor
  arrays: an association list in insertion order. \<open>Object.keys\<close> and
  \<open>Object.values\<close> read it off.
\<close>

type_synonym IMarkovMap = "(string \<times> string list) list"

definition Object_keys :: "IMarkovMap \<Rightarrow> string list" where
  "Object_keys m = map fst m"

definition Object_values :: "IMarkovMap \<Rightarrow> string list list" where
  "Object_values m = map snd m"

text \<open>
  A \<open>Set<string>\<close> keeps its members in insertion order without repetition:
  a list, with \<open>add\<close> ignoring a member already present.
\<close>

definition Set_has :: "string list \<Rightarrow> string \<Rightarrow> bool" where
  "Set_has s x = (x \<in> set s)"

definition Set_add :: "string \<Rightarrow> string list \<Rightarrow> string list" where
  "Set_add x s = (if Set_has s x then s else s @ [x])"

definition Set_new :: "string list \<Rightarrow> string list" where
  "Set_new xs = fold Set_add xs []"

definition Array_from :: "string list \<Rightarrow> string list" where
  "Array_from s = s"

text \<open>
  The result of a JavaScript division of two counts: \<open>0 / 0\<close> is \<open>NaN\<close>,
  \<open>n / 0\<close> is \<open>Infinity\<close> for positive \<open>n\<close>, anything else the quotient
  (its rounding to a double is left out).
\<close>

datatype js_number = NaN | Infinity | Num rat

definition js_divide :: "nat \<Rightarrow> nat \<Rightarrow> js_number" where
  "js_divide a b =
     (if b = 0 then (if a = 0 then NaN else Infinity)
      else Num (of_nat a / of_nat b))"

section \<open>Read-only metrics\<close>

definition getKeyCount :: "IMarkovMap \<Rightarrow> nat" where
  "getKeyCount m = length (Object_keys m)"

definition getKeyValueRatio :: "IMarkovMap \<Rightarrow> js_number" where
  "getKeyValueRatio m =
     (let totalValues = foldl (\<lambda>total tokenArray. total + length tokenArray) 0 (Object_values m)
      in js_divide totalValues (getKeyCount m))"

text \<open>
  \<open>ControlTokens.END\<close> comes from the markov module, which is not among the
  sources: the token is a parameter.
\<close>

definition getSentencesProcessed :: "string \<Rightarrow> IMarkovMap \<Rightarrow> nat" where
  "getSentencesProcessed END m =
     length (filter (\<lambda>token. token = END) (concat (Object_values m)))"

definition getVideosProcessed :: "string list \<Rightarrow> nat" where
  "getVideosProcessed harvestedYoutubeIDs = length harvestedYoutubeIDs"

section \<open>Candidate selection\<close>

text \<open>
  The first statement of \<open>updateMapFromYoutube\<close>: the discovery list, filtered by
  the harvested set, then sliced.
\<close>

definition trending :: "string list \<Rightarrow> string list \<Rightarrow> string list" where
  "trending harvestedYoutubeIDs videos =
     take MAX_VIDEOS_PER_UPDATE (filter (\<lambda>videoID. \<not> Set_has harvestedYoutubeIDs videoID) videos)"

definition trending_legacy :: "string list \<Rightarrow> string list \<Rightarrow> string list" where
  "trending_legacy harvestedYoutubeIDs videos =
     take MAX_VIDEOS_PER_UPDATE_legacy
       (filter (\<lambda>videoID. \<not> Set_has harvestedYoutubeIDs videoID) videos)"

section \<open>The fs module\<close>

text \<open>
  The class reaches the disk through Node's \<open>fs\<close> module only, so the disk is a
  collaborator: the model keeps the calls the class makes, in the order it makes them,
  and takes the answers from an environment. A path is the list of its components
  below the working directory, so \<open>path.dirname\<close> drops the last component.

  \<open>existsSync\<close> and \<open>mkdirSync\<close> are synchronous and \<open>readFile\<close> is awaited where
  it is called: the class gets their answers. \<open>writeFile\<close> and \<open>appendFile\<close> are
  awaited only inside \<open>saveJSONToFile\<close>, \<open>saveCommentsToStorage\<close> and the legacy
  \<open>saveMapToStorage\<close>, whose own promises no caller awaits (\<open>saveDataToStorage\<close>
  neither awaits nor returns them). For the class they are requests that are issued:
  no code waits for one or sees its outcome, and nothing here says when, in what
  order, or whether a request completes.
\<close>

datatype error = ENOENT | ENOTDIR | EISDIR | EEXIST | SyntaxError | TypeError | RequestFailed

type_synonym path = "string list"

definition dirname :: "path \<Rightarrow> path" where
  "dirname p = butlast p"

datatype fs_call =
  ExistsSync path
| MkdirSync path
| ReadFile path
| WriteFile path string
| AppendFile path string

text \<open>
  The answers of the disk. Each takes the calls made before. \<open>mkdirSync\<close> answers
  with the error it throws, if it throws.
\<close>

record fs_env =
  existsSync :: "fs_call list \<Rightarrow> path \<Rightarrow> bool"
  mkdirSync :: "fs_call list \<Rightarrow> path \<Rightarrow> error option"
  readFile :: "fs_call list \<Rightarrow> path \<Rightarrow> error + string"

text \<open>The texts of the \<open>writeFile\<close> requests issued for a path, oldest first.\<close>

definition writes_to :: "path \<Rightarrow> fs_call list \<Rightarrow> string list" where
  "writes_to p calls =
     concat (map (\<lambda>c. case c of WriteFile q data \<Rightarrow> (if q = p then [data] else []) | _ \<Rightarrow> [])
               calls)"

definition last_write :: "path \<Rightarrow> fs_call list \<Rightarrow> string option" where
  "last_write p calls = (if writes_to p calls = [] then None else Some (last (writes_to p calls)))"

text \<open>
  A writer finds the directory there or can make it: \<open>existsSync\<close> answers yes, or
  the \<open>mkdirSync\<close> that follows it does not throw.
\<close>

definition directoryAvailable :: "fs_env \<Rightarrow> path \<Rightarrow> bool" where
  "directoryAvailable io dir =
     (\<forall>calls. \<not> existsSync io calls dir \<longrightarrow> mkdirSync io (calls @ [ExistsSync dir]) dir = None)"

section \<open>Node's disk\<close>

text \<open>
  Disks the environment can be: the directories that exist and the text of each file,
  with Node's rules. The working directory always exists. \<open>mkdirSync\<close> without the
  recursive option makes one directory and throws when its parent is missing; a write
  fails when the file's directory is missing.
\<close>

record filesystem =
  directories :: "path set"
  files :: "path \<rightharpoonup> string"

definition isDirectory :: "filesystem \<Rightarrow> path \<Rightarrow> bool" where
  "isDirectory fs p = (p = [] \<or> p \<in> directories fs)"

definition disk_exists :: "filesystem \<Rightarrow> path \<Rightarrow> bool" where
  "disk_exists fs p = (isDirectory fs p \<or> files fs p \<noteq> None)"

definition disk_mkdir :: "filesystem \<Rightarrow> path \<Rightarrow> error + filesystem" where
  "disk_mkdir fs p =
     (if disk_exists fs p then Inl EEXIST
      else if isDirectory fs (dirname p) then Inr (fs\<lparr>directories := insert p (directories fs)\<rparr>)
      else if files fs (dirname p) \<noteq> None then Inl ENOTDIR
      else Inl ENOENT)"

definition disk_write :: "filesystem \<Rightarrow> path \<Rightarrow> string \<Rightarrow> error + filesystem" where
  "disk_write fs p data =
     (if isDirectory fs p then Inl EISDIR
      else if isDirectory fs (dirname p) then Inr (fs\<lparr>files := (files fs)(p \<mapsto> data)\<rparr>)
      else if files fs (dirname p) \<noteq> None then Inl ENOTDIR
      else Inl ENOENT)"

definition disk_append :: "filesystem \<Rightarrow> path \<Rightarrow> string \<Rightarrow> error + filesystem" where
  "disk_append fs p data =
     (if isDirectory fs p then Inl EISDIR
      else if isDirectory fs (dirname p) then
        Inr (fs\<lparr>files := (files fs)(p \<mapsto> (case files fs p of None \<Rightarrow> data | Some old \<Rightarrow> old @ data))\<rparr>)
      else if files fs (dirname p) \<noteq> None then Inl ENOTDIR
      else Inl ENOENT)"

definition disk_read :: "filesystem \<Rightarrow> path \<Rightarrow> error + string" where
  "disk_read fs p =
     (if isDirectory fs p then Inl EISDIR
      else (case files fs p of None \<Rightarrow> Inl ENOENT | Some contents \<Rightarrow> Inr contents))"

text \<open>
  The disk after a list of calls. A \<open>mkdirSync\<close> acts when it is called. For the
  write requests two behaviours are set out: \<open>completed = True\<close>, every request has
  completed, in the order of issue, when the next call is made; \<open>completed = False\<close>,
  no request has completed yet, as when a method returns right after issuing its
  writes.
\<close>

definition apply_call :: "bool \<Rightarrow> fs_call \<Rightarrow> filesystem \<Rightarrow> filesystem" where
  "apply_call completed c fs =
     (case c of
        MkdirSync p \<Rightarrow> (case disk_mkdir fs p of Inl e \<Rightarrow> fs | Inr fs1 \<Rightarrow> fs1)
      | WriteFile p data \<Rightarrow>
          (if completed then (case disk_write fs p data of Inl e \<Rightarrow> fs | Inr fs1 \<Rightarrow> fs1) else fs)
      | AppendFile p data \<Rightarrow>
          (if completed then (case disk_append fs p data of Inl e \<Rightarrow> fs | Inr fs1 \<Rightarrow> fs1) else fs)
      | ExistsSync p \<Rightarrow> fs
      | ReadFile p \<Rightarrow> fs)"

definition disk_after :: "bool \<Rightarrow> filesystem \<Rightarrow> fs_call list \<Rightarrow> filesystem" where
  "disk_after completed fs calls = fold (apply_call completed) calls fs"

definition nodeDisk :: "bool \<Rightarrow> filesystem \<Rightarrow> fs_env" where
  "nodeDisk completed fs =
     \<lparr>existsSync = (\<lambda>calls p. disk_exists (disk_after completed fs calls) p),
      mkdirSync = (\<lambda>calls p. case disk_mkdir (disk_after completed fs calls) p of
                                 Inl e \<Rightarrow> Some e | Inr fs1 \<Rightarrow> None),
      readFile = (\<lambda>calls p. disk_read (disk_after completed fs calls) p)\<rparr>"

section \<open>Collaborators\<close>

text \<open>
  What the class imports and does not define. \<open>JSON.stringify\<close> and
  \<open>JSON.parse\<close> are used at two types in the split-layout class (the identifier
  array and the map) and at the type \<open>ISerializedStructure\<close> in the legacy class
  (a pair here). A parse throws or gives a value, and the code casts the value without
  looking at it. For the identifier file the value is told apart as far as
  \<open>new Set\<close> does: \<open>null\<close>, an array of strings, or a value that cannot be
  iterated (an object, a number, a boolean). For the map file it is \<open>null\<close> or a
  map. For the legacy file, whose load stands in a \<open>try\<close> block as a whole, a value
  whose fields cannot be read counts as a parse that throws. Values of other shapes
  (an array with other elements, a map file that holds a number) have no counterpart
  in the types of the class and are left out.
  \<open>createDictionaryFromInput\<close> and \<open>updateDictionaryFromInput\<close> belong to
  the markov module, which is not among the sources; the update mutates the map it is
  given, so the model returns the updated map.
\<close>

datatype ids_json = IdsNull | IdsArray "string list" | IdsNotIterable

record deps =
  JSON_stringify_ids :: "string list \<Rightarrow> string"
  JSON_parse_ids :: "string \<Rightarrow> error + ids_json"
  JSON_stringify_map :: "IMarkovMap \<Rightarrow> string"
  JSON_parse_map :: "string \<Rightarrow> error + IMarkovMap option"
  JSON_stringify_structure :: "IMarkovMap \<times> string list \<Rightarrow> string"
  JSON_parse_structure :: "string \<Rightarrow> error + IMarkovMap \<times> string list"
  createDictionaryFromInput :: "string \<Rightarrow> nat \<Rightarrow> IMarkovMap"
  updateDictionaryFromInput :: "string \<Rightarrow> IMarkovMap \<Rightarrow> nat \<Rightarrow> IMarkovMap"

text \<open>
  The youtube module: the answers of the two requests, each of which may fail.
  \<open>fetchAllCommentsForVideo\<close> takes the video, the key and the maximal count.
\<close>

record youtube =
  fetchTrendingVideos :: "string \<Rightarrow> error + string list"
  fetchAllCommentsForVideo :: "string \<Rightarrow> string \<Rightarrow> nat \<Rightarrow> error + string list"

section \<open>The split-layout class\<close>

text \<open>
  The object. The map is assigned by \<open>initialise\<close> on every path on which it
  resolves, and the methods below are for an object on which it has resolved, so the
  field is not optional.
\<close>

record YoutubeMarkov =
  apiKey :: string
  pathToMapStorage :: path
  pathToVideosProcessedStorage :: path
  pathToCommentStorage :: path
  map_field :: IMarkovMap
  harvestedYoutubeIDs :: "string list"

text \<open>
  The object (of either class), the calls made to the fs module so far, and the list of
  the videos that were asked of \<open>fetchAllCommentsForVideo\<close> so far, both oldest
  first (traces the code does not keep).
\<close>

record 'obj world =
  brain :: 'obj
  calls :: "fs_call list"
  requested :: "string list"

fun join :: "string \<Rightarrow> string list \<Rightarrow> string" where
  "join sep [] = []"
| "join sep [x] = x"
| "join sep (x # y # ys) = x @ sep @ join sep (y # ys)"

text \<open>
  The three writers are async functions whose promise no caller awaits. Each gives the
  calls it has made when its caller goes on: the two synchronous ones and, unless
  \<open>mkdirSync\<close> threw (which rejects the promise there), the write request.
\<close>

definition saveJSONToFile ::
  "fs_env \<Rightarrow> ('a \<Rightarrow> string) \<Rightarrow> 'a \<Rightarrow> path \<Rightarrow> fs_call list \<Rightarrow> fs_call list" where
  "saveJSONToFile io stringify obj filePath trace =
     (let dir = dirname filePath;
          trace1 = trace @ [ExistsSync dir]
      in if \<not> existsSync io trace dir
         then (case mkdirSync io trace1 dir of
                 Some e \<Rightarrow> trace1 @ [MkdirSync dir]
               | None \<Rightarrow> trace1 @ [MkdirSync dir, WriteFile filePath (stringify obj)])
         else trace1 @ [WriteFile filePath (stringify obj)])"

definition saveCommentsToStorage ::
  "fs_env \<Rightarrow> YoutubeMarkov \<Rightarrow> string list \<Rightarrow> fs_call list \<Rightarrow> fs_call list" where
  "saveCommentsToStorage io this comments trace =
     (let dir = dirname (pathToCommentStorage this);
          trace1 = trace @ [ExistsSync dir]
      in if \<not> existsSync io trace dir
         then (case mkdirSync io trace1 dir of
                 Some e \<Rightarrow> trace1 @ [MkdirSync dir]
               | None \<Rightarrow>
                   trace1 @ [MkdirSync dir,
                           AppendFile (pathToCommentStorage this) (join [CHR 0x0A] comments)])
         else trace1 @ [AppendFile (pathToCommentStorage this) (join [CHR 0x0A] comments)])"

text \<open>
  \<open>saveDataToStorage\<close> calls \<open>saveJSONToFile\<close> twice without await and
  resolves.
\<close>

definition saveDataToStorage :: "deps \<Rightarrow> fs_env \<Rightarrow> YoutubeMarkov \<Rightarrow> fs_call list \<Rightarrow> fs_call list" where
  "saveDataToStorage d io this trace =
     (let trace1 = saveJSONToFile io (JSON_stringify_ids d) (Array_from (harvestedYoutubeIDs this))
                   (pathToVideosProcessedStorage this) trace
      in saveJSONToFile io (JSON_stringify_map d) (map_field this) (pathToMapStorage this) trace1)"

text \<open>
  The two loaders catch every error and return \<open>null\<close>, which is given here as the
  value that stands for it at the type of the result.
\<close>

definition loadJSONFromFile ::
  "fs_env \<Rightarrow> (string \<Rightarrow> error + 'a) \<Rightarrow> 'a \<Rightarrow> fs_call list \<Rightarrow> path \<Rightarrow> 'a \<times> fs_call list" where
  "loadJSONFromFile io parse null trace filePath =
     (case readFile io trace filePath of
        Inl e \<Rightarrow> (null, trace @ [ReadFile filePath])
      | Inr json \<Rightarrow>
          (case parse json of
             Inl e \<Rightarrow> (null, trace @ [ReadFile filePath])
           | Inr v \<Rightarrow> (v, trace @ [ReadFile filePath])))"

definition loadFile :: "fs_env \<Rightarrow> fs_call list \<Rightarrow> path \<Rightarrow> string option \<times> fs_call list" where
  "loadFile io trace filePath =
     (case readFile io trace filePath of
        Inl e \<Rightarrow> (None, trace @ [ReadFile filePath])
      | Inr contents \<Rightarrow> (Some contents, trace @ [ReadFile filePath]))"

text \<open>
  \<open>loadDataFromStorage\<close>: the identifiers first, kept as they are when the file
  gives \<open>null\<close>; \<open>new Set(ids)\<close> stands outside every \<open>try\<close> and throws on a
  value that cannot be iterated. Then the map, rebuilt from the comment file when the
  map file gives \<open>null\<close>, with \<open>saveDataToStorage\<close> called in that case.
\<close>

definition loadDataFromStorage ::
  "deps \<Rightarrow> fs_env \<Rightarrow> YoutubeMarkov \<Rightarrow> fs_call list \<Rightarrow> (error + unit) \<times> YoutubeMarkov \<times> fs_call list" where
  "loadDataFromStorage d io this trace =
     (case loadJSONFromFile io (JSON_parse_ids d) IdsNull trace (pathToVideosProcessedStorage this) of
        (IdsNotIterable, trace1) \<Rightarrow> (Inl TypeError, this, trace1)
      | (ids, trace1) \<Rightarrow>
          (let this1 = (case ids of IdsArray xs \<Rightarrow> this\<lparr>harvestedYoutubeIDs := Set_new xs\<rparr>
                        | _ \<Rightarrow> this)
           in case loadJSONFromFile io (JSON_parse_map d) None trace1 (pathToMapStorage this1) of
                (Some m, trace2) \<Rightarrow> (Inr (), this1\<lparr>map_field := m\<rparr>, trace2)
              | (None, trace2) \<Rightarrow>
                  (let this2 = this1\<lparr>map_field := createDictionaryFromInput d [] CHAIN_LENGTH\<rparr>
                   in case loadFile io trace2 (pathToCommentStorage this2) of
                        (None, trace3) \<Rightarrow> (Inr (), this2, trace3)
                      | (Some allCommentsEver, trace3) \<Rightarrow>
                          (let this3 = this2\<lparr>map_field :=
                                 updateDictionaryFromInput d allCommentsEver (map_field this2)
                                   CHAIN_LENGTH\<rparr>
                           in (Inr (), this3, saveDataToStorage d io this3 trace3)))))"

definition initialise ::
  "deps \<Rightarrow> fs_env \<Rightarrow> YoutubeMarkov \<Rightarrow> fs_call list \<Rightarrow> (error + unit) \<times> YoutubeMarkov \<times> fs_call list" where
  "initialise d io this trace = loadDataFromStorage d io this trace"

text \<open>
  What a call of \<open>updateMapFromYoutube\<close> leaves: whether its promise resolved,
  the last value of the local counter \<open>commentsFetched\<close>, and the world after it.
\<close>

record 'obj cycle =
  outcome :: "error + unit"
  commentsFetched :: nat
  after :: "'obj world"

text \<open>
  The \<open>for ... of\<close> loop of \<open>updateMapFromYoutube\<close> over the batch, with the
  counter \<open>commentsFetched\<close>. A failed fetch ends the call with the rejection; what
  the loop changed before stays changed. The quota test stands at the end of the body.
\<close>

fun harvest ::
  "deps \<Rightarrow> fs_env \<Rightarrow> youtube \<Rightarrow> string list \<Rightarrow> nat \<Rightarrow> YoutubeMarkov world \<Rightarrow> YoutubeMarkov cycle" where
  "harvest d io yt [] fetched w = \<lparr>outcome = Inr (), commentsFetched = fetched, after = w\<rparr>"
| "harvest d io yt (videoId # rest) fetched w =
     (let w0 = w\<lparr>requested := requested w @ [videoId]\<rparr> in
      case fetchAllCommentsForVideo yt videoId (apiKey (brain w)) MAX_COMMENTS_PER_VIDEO of
        Inl e \<Rightarrow> \<lparr>outcome = Inl e, commentsFetched = fetched, after = w0\<rparr>
      | Inr comments \<Rightarrow>
          (let fetched1 = fetched + length comments;
               this1 = (brain w)\<lparr>map_field :=
                  updateDictionaryFromInput d (join [CHR 0x0A] comments) (map_field (brain w))
                    CHAIN_LENGTH\<rparr>;
               this2 = this1\<lparr>harvestedYoutubeIDs := Set_add videoId (harvestedYoutubeIDs this1)\<rparr>;
               trace1 = saveCommentsToStorage io this2 comments (calls w);
               w1 = w0\<lparr>brain := this2, calls := trace1\<rparr>
           in if fetched1 + MAX_COMMENTS_PER_VIDEO > MAX_COMMENTS_PER_DAY
              then \<lparr>outcome = Inr (), commentsFetched = fetched1, after = w1\<rparr>
              else harvest d io yt rest fetched1 w1))"

text \<open>
  \<open>updateMapFromYoutube\<close>. \<open>saveDataToStorage\<close> is called, without await, once
  the loop is left normally; a rejection inside the loop leaves the method before.
\<close>

definition updateMapFromYoutube ::
  "deps \<Rightarrow> fs_env \<Rightarrow> youtube \<Rightarrow> YoutubeMarkov world \<Rightarrow> YoutubeMarkov cycle" where
  "updateMapFromYoutube d io yt w =
     (case fetchTrendingVideos yt (apiKey (brain w)) of
        Inl e \<Rightarrow> \<lparr>outcome = Inl e, commentsFetched = 0, after = w\<rparr>
      | Inr videos \<Rightarrow>
          (let c = harvest d io yt (trending (harvestedYoutubeIDs (brain w)) videos) 0 w in
           case outcome c of
             Inl e \<Rightarrow> c
           | Inr u \<Rightarrow>
               c\<lparr>after := (after c)\<lparr>calls :=
                    saveDataToStorage d io (brain (after c)) (calls (after c))\<rparr>\<rparr>))"

text \<open>
  Modelled from the spec: the fetch collaborator \<open>fetchSnippets(itemID, credential,
  maxCount)\<close> is not among the sources; the spec gives it as returning a sequence
  of texts "capped at \<open>maxCount\<close>". The class passes \<open>MAX_COMMENTS_PER_VIDEO\<close>
  and does not cut the answer itself.
\<close>

definition honoursMaxCount :: "youtube \<Rightarrow> bool" where
  "honoursMaxCount yt =
     (\<forall>videoId key maxCount comments.
        fetchAllCommentsForVideo yt videoId key maxCount = Inr comments \<longrightarrow>
        length comments \<le> maxCount)"

text \<open>The number of comments a request for one video gives back (none when it fails).\<close>

definition commentsReturned :: "youtube \<Rightarrow> string \<Rightarrow> string \<Rightarrow> nat" where
  "commentsReturned yt key videoId =
     (case fetchAllCommentsForVideo yt videoId key MAX_COMMENTS_PER_VIDEO of
        Inl e \<Rightarrow> 0
      | Inr comments \<Rightarrow> length comments)"

section \<open>The legacy class\<close>

text \<open>
  The older class keeps the map and the identifiers in one file, does not keep the
  comments, and has its own constants. Its \<open>initialise\<close> puts the whole load in a
  \<open>try\<close> block.
\<close>

record YoutubeMarkov_legacy =
  apiKey_legacy :: string
  pathToFile :: path
  map_legacy :: IMarkovMap
  harvestedYoutubeIDs_legacy :: "string list"

definition loadMapFromStorage ::
  "deps \<Rightarrow> fs_env \<Rightarrow> YoutubeMarkov_legacy \<Rightarrow> fs_call list
    \<Rightarrow> (error + unit) \<times> YoutubeMarkov_legacy \<times> fs_call list" where
  "loadMapFromStorage d io this trace =
     (case readFile io trace (pathToFile this) of
        Inl e \<Rightarrow> (Inl e, this, trace @ [ReadFile (pathToFile this)])
      | Inr json \<Rightarrow>
          (case JSON_parse_structure d json of
             Inl e \<Rightarrow> (Inl e, this, trace @ [ReadFile (pathToFile this)])
           | Inr (m, ids) \<Rightarrow>
               (Inr (), this\<lparr>map_legacy := m, harvestedYoutubeIDs_legacy := Set_new ids\<rparr>,
                trace @ [ReadFile (pathToFile this)])))"

definition initialise_legacy ::
  "deps \<Rightarrow> fs_env \<Rightarrow> YoutubeMarkov_legacy \<Rightarrow> fs_call list
    \<Rightarrow> (error + unit) \<times> YoutubeMarkov_legacy \<times> fs_call list" where
  "initialise_legacy d io this trace =
     (case loadMapFromStorage d io this trace of
        (Inl e, this1, trace1) \<Rightarrow>
          (Inr (), this1\<lparr>map_legacy := createDictionaryFromInput d [] CHAIN_LENGTH_legacy\<rparr>, trace1)
      | (Inr u, this1, trace1) \<Rightarrow> (Inr (), this1, trace1))"

definition saveMapToStorage ::
  "deps \<Rightarrow> fs_env \<Rightarrow> YoutubeMarkov_legacy \<Rightarrow> fs_call list \<Rightarrow> fs_call list" where
  "saveMapToStorage d io this trace =
     (let dir = dirname (pathToFile this);
          trace1 = trace @ [ExistsSync dir];
          data = (map_legacy this, Array_from (harvestedYoutubeIDs_legacy this))
      in if \<not> existsSync io trace dir
         then (case mkdirSync io trace1 dir of
                 Some e \<Rightarrow> trace1 @ [MkdirSync dir]
               | None \<Rightarrow>
                   trace1 @ [MkdirSync dir, WriteFile (pathToFile this) (JSON_stringify_structure d data)])
         else trace1 @ [WriteFile (pathToFile this) (JSON_stringify_structure d data)])"

fun harvest_legacy ::
  "deps \<Rightarrow> youtube \<Rightarrow> string list \<Rightarrow> nat \<Rightarrow> YoutubeMarkov_legacy world
    \<Rightarrow> YoutubeMarkov_legacy cycle" where
  "harvest_legacy d yt [] fetched w = \<lparr>outcome = Inr (), commentsFetched = fetched, after = w\<rparr>"
| "harvest_legacy d yt (videoId # rest) fetched w =
     (let w0 = w\<lparr>requested := requested w @ [videoId]\<rparr> in
      case fetchAllCommentsForVideo yt videoId (apiKey_legacy (brain w))
             MAX_COMMENTS_PER_VIDEO_legacy of
        Inl e \<Rightarrow> \<lparr>outcome = Inl e, commentsFetched = fetched, after = w0\<rparr>
      | Inr comments \<Rightarrow>
          (let fetched1 = fetched + length comments;
               this1 = (brain w)\<lparr>map_legacy :=
                  updateDictionaryFromInput d (join [CHR 0x0A] comments) (map_legacy (brain w))
                    CHAIN_LENGTH_legacy\<rparr>;
               this2 = this1\<lparr>harvestedYoutubeIDs_legacy :=
                  Set_add videoId (harvestedYoutubeIDs_legacy this1)\<rparr>;
               w1 = w0\<lparr>brain := this2\<rparr>
           in if fetched1 + MAX_COMMENTS_PER_VIDEO_legacy > MAX_COMMENTS_PER_DAY
              then \<lparr>outcome = Inr (), commentsFetched = fetched1, after = w1\<rparr>
              else harvest_legacy d yt rest fetched1 w1))"

definition updateMapFromYoutube_legacy ::
  "deps \<Rightarrow> fs_env \<Rightarrow> youtube \<Rightarrow> YoutubeMarkov_legacy world \<Rightarrow> YoutubeMarkov_legacy cycle" where
  "updateMapFromYoutube_legacy d io yt w =
     (case fetchTrendingVideos yt (apiKey_legacy (brain w)) of
        Inl e \<Rightarrow> \<lparr>outcome = Inl e, commentsFetched = 0, after = w\<rparr>
      | Inr videos \<Rightarrow>
          (let c = harvest_legacy d yt
                     (trending_legacy (harvestedYoutubeIDs_legacy (brain w)) videos) 0 w in
           case outcome c of
             Inl e \<Rightarrow> c
           | Inr u \<Rightarrow>
               c\<lparr>after := (after c)\<lparr>calls :=
                    saveMapToStorage d io (brain (after c)) (calls (after c))\<rparr>\<rparr>))"

section \<open>The markov module\<close>

text \<open>
  Modelled from the spec: the markov module (\<open>createDictionaryFromInput\<close>,
  \<open>updateDictionaryFromInput\<close> and the tokenizer they share) is not among the
  sources. The spec (4.1, 4.2) has the tokenizer split a text into units and each unit
  into tokens, an empty text giving no unit; each unit is wrapped in \<open>K\<close> leading
  START tokens and one trailing END token; for every position \<open>i\<close> of a wrapped unit
  the key made of the tokens \<open>i .. i+K-1\<close> is recorded as followed by the token
  \<open>i+K\<close>, the successor appended to the key's list; \<open>build\<close> records into a fresh
  map and \<open>update\<close> into the map it is given. How a text is cut into units and tokens,
  the two control tokens and the serialization of a key are left open by the spec and
  are parameters.
\<close>

record markov_spec =
  tokenize :: "string \<Rightarrow> string list list"
  START_token :: string
  END_token :: string
  serialize :: "string list \<Rightarrow> string"

definition pad :: "markov_spec \<Rightarrow> nat \<Rightarrow> string list \<Rightarrow> string list" where
  "pad sp K unit = replicate K (START_token sp) @ unit @ [END_token sp]"

definition windows :: "nat \<Rightarrow> string list \<Rightarrow> (string list \<times> string) list" where
  "windows K tokens = map (\<lambda>i. (take K (drop i tokens), tokens ! (i + K))) [0..<length tokens - K]"

definition observations :: "markov_spec \<Rightarrow> string \<Rightarrow> nat \<Rightarrow> (string \<times> string) list" where
  "observations sp text K =
     concat (map (\<lambda>unit. map (\<lambda>(key, successor). (serialize sp key, successor))
                            (windows K (pad sp K unit)))
               (tokenize sp text))"

definition record_successor :: "string \<times> string \<Rightarrow> IMarkovMap \<Rightarrow> IMarkovMap" where
  "record_successor obs m =
     (if fst obs \<in> set (Object_keys m)
      then map (\<lambda>(key, successors).
             if key = fst obs then (key, successors @ [snd obs]) else (key, successors)) m
      else m @ [(fst obs, [snd obs])])"

definition updateDictionary_spec :: "markov_spec \<Rightarrow> string \<Rightarrow> IMarkovMap \<Rightarrow> nat \<Rightarrow> IMarkovMap" where
  "updateDictionary_spec sp text m K = fold record_successor (observations sp text K) m"

definition createDictionary_spec :: "markov_spec \<Rightarrow> string \<Rightarrow> nat \<Rightarrow> IMarkovMap" where
  "createDictionary_spec sp text K = fold record_successor (observations sp text K) []"

text \<open>The successors a map holds for a key (none when the key is absent).\<close>

definition successors_of :: "IMarkovMap \<Rightarrow> string \<Rightarrow> string list" where
  "successors_of m key = (case map_of m key of None \<Rightarrow> [] | Some successors \<Rightarrow> successors)"

section \<open>Sequences of cycles and restarts\<close>

text \<open>
  What happens to a process over time: a harvest cycle, with the answers the youtube
  module gives during it, or a restart, where a new object (with an empty harvested
  set) is made for the same paths and initialised. The disk is one environment for the
  whole sequence. A cycle whose promise rejects leaves the object as it is then. A
  restart whose \<open>initialise\<close> rejects ends the sequence: the sources do not say
  what the process does then.
\<close>

datatype event = Cycle youtube | Restart

definition restart :: "deps \<Rightarrow> fs_env \<Rightarrow> YoutubeMarkov world \<Rightarrow> (error + unit) \<times> YoutubeMarkov world" where
  "restart d io w =
     (case initialise d io ((brain w)\<lparr>harvestedYoutubeIDs := Set_new []\<rparr>) (calls w) of
        (r, this1, trace1) \<Rightarrow> (r, w\<lparr>brain := this1, calls := trace1\<rparr>))"

fun run :: "deps \<Rightarrow> fs_env \<Rightarrow> event list \<Rightarrow> YoutubeMarkov world \<Rightarrow> YoutubeMarkov world" where
  "run d io [] w = w"
| "run d io (Cycle yt # events) w = run d io events (after (updateMapFromYoutube d io yt w))"
| "run d io (Restart # events) w =
     (case restart d io w of
        (Inl e, w1) \<Rightarrow> w1
      | (Inr u, w1) \<Rightarrow> run d io events w1)"




text \<open>
  The timing of the writes, which the code leaves open: when a restart reads the
  identifier file, the file holds the text of the last write that was issued for it
  (if one was issued). This is so when that write has completed, no older write for
  the file completes after it, and nothing else changes the file.
\<close>

definition indexReadsBack :: "fs_env \<Rightarrow> YoutubeMarkov world \<Rightarrow> bool" where
  "indexReadsBack io w =
     (case last_write (pathToVideosProcessedStorage (brain w)) (calls w) of
        None \<Rightarrow> True
      | Some data \<Rightarrow> readFile io (calls w) (pathToVideosProcessedStorage (brain w)) = Inr data)"

fun indexWrittenAtRestarts ::
  "deps \<Rightarrow> fs_env \<Rightarrow> event list \<Rightarrow> YoutubeMarkov world \<Rightarrow> bool" where
  "indexWrittenAtRestarts d io [] w = True"
| "indexWrittenAtRestarts d io (Cycle yt # events) w =
     indexWrittenAtRestarts d io events (after (updateMapFromYoutube d io yt w))"
| "indexWrittenAtRestarts d io (Restart # events) w =
     (indexReadsBack io w \<and>
      (case restart d io w of
         (Inl e, w1) \<Rightarrow> True
       | (Inr u, w1) \<Rightarrow> indexWrittenAtRestarts d io events w1))"


section \<open>An example configuration\<close>

text \<open>
  Small instances on which the results below are evaluated. First a library whose
  parsers reject every text, whose builder gives the empty map and whose update adds
  one entry for the text it is given.
\<close>

definition example_deps :: deps where
  "example_deps =
     \<lparr>JSON_stringify_ids = concat,
      JSON_parse_ids = (\<lambda>s. Inl SyntaxError),
      JSON_stringify_map = (\<lambda>m. concat (map fst m)),
      JSON_parse_map = (\<lambda>s. Inl SyntaxError),
      JSON_stringify_structure = (\<lambda>(m, ids). concat ids),
      JSON_parse_structure = (\<lambda>s. Inl SyntaxError),
      createDictionaryFromInput = (\<lambda>text k. []),
      updateDictionaryFromInput = (\<lambda>text m k. m @ [(text, [''__END__''])])\<rparr>"

text \<open>
  Three trending videos, and two comments for every video (fewer when fewer are asked
  for).
\<close>

definition example_youtube :: youtube where
  "example_youtube =
     \<lparr>fetchTrendingVideos = (\<lambda>key. Inr [''v1'', ''v2'', ''v3'']),
      fetchAllCommentsForVideo = (\<lambda>videoId key maxCount. Inr (take maxCount [''first'', videoId]))\<rparr>"

text \<open>
  An object of each class that has made no call yet, one of the three videos harvested
  before; and a disk with no directory and no file.
\<close>

definition example_world :: "YoutubeMarkov world" where
  "example_world =
     \<lparr>brain = \<lparr>apiKey = ''key'', pathToMapStorage = [''data'', ''map.json''],
        pathToVideosProcessedStorage = [''data'', ''videos.json''],
        pathToCommentStorage = [''data'', ''comments.txt''],
        map_field = [], harvestedYoutubeIDs = [''v2'']\<rparr>,
      calls = [],
      requested = []\<rparr>"

definition example_legacy :: YoutubeMarkov_legacy where
  "example_legacy =
     \<lparr>apiKey_legacy = ''key'', pathToFile = [''data'', ''markov.json''],
      map_legacy = [], harvestedYoutubeIDs_legacy = [''v2'']\<rparr>"

definition example_legacy_world :: "YoutubeMarkov_legacy world" where
  "example_legacy_world = \<lparr>brain = example_legacy, calls = [], requested = []\<rparr>"

definition empty_disk :: filesystem where
  "empty_disk = \<lparr>directories = {}, files = Map.empty\<rparr>"

text \<open>
  A disk on which every directory asked about exists and no file can be read.
\<close>

definition ready_disk :: fs_env where
  "ready_disk =
     \<lparr>existsSync = (\<lambda>trace p. True),
      mkdirSync = (\<lambda>trace p. None),
      readFile = (\<lambda>trace p. Inl ENOENT)\<rparr>"

text \<open>
  Twenty-six trending videos with as many comments each as are asked for; a module whose
  fetch for the third video is rejected; one whose every fetch is rejected; a discovery
  list that names a video twice.
\<close>

definition heavy_youtube :: youtube where
  "heavy_youtube =
     \<lparr>fetchTrendingVideos = (\<lambda>key. Inr (map (\<lambda>c. [c]) ''abcdefghijklmnopqrstuvwxyz'')),
      fetchAllCommentsForVideo = (\<lambda>videoId key maxCount. Inr (replicate maxCount ''nice''))\<rparr>"

definition failing_youtube :: youtube where
  "failing_youtube =
     \<lparr>fetchTrendingVideos = (\<lambda>key. Inr [''v1'', ''v2'', ''v3'']),
      fetchAllCommentsForVideo =
        (\<lambda>videoId key maxCount.
           if videoId = ''v3'' then Inl RequestFailed
           else Inr (take maxCount [''first'', videoId]))\<rparr>"


definition repeating_youtube :: youtube where
  "repeating_youtube =
     \<lparr>fetchTrendingVideos = (\<lambda>key. Inr [''v1'', ''v1'']),
      fetchAllCommentsForVideo = (\<lambda>videoId key maxCount. Inr (take maxCount [''first'', videoId]))\<rparr>"

text \<open>
  An instance of the markov module: lines are units, blanks separate tokens. With it, a
  disk that holds a comment file and nothing else.
\<close>

fun split :: "char \<Rightarrow> string \<Rightarrow> string list" where
  "split c [] = [[]]"
| "split c (x # xs) =
     (if x = c then [] # split c xs
      else (case split c xs of [] \<Rightarrow> [[x]] | y # ys \<Rightarrow> (x # y) # ys))"

definition example_spec :: markov_spec where
  "example_spec =
     \<lparr>tokenize = (\<lambda>text. if text = [] then []
                   else map (\<lambda>line. filter (\<lambda>t. t \<noteq> []) (split CHR '' '' line))
                          (split (CHR 0x0A) text)),
      START_token = ''__START__'',
      END_token = ''__END__'',
      serialize = join ''|''\<rparr>"

definition example_spec_deps :: deps where
  "example_spec_deps =
     example_deps\<lparr>createDictionaryFromInput := createDictionary_spec example_spec,
                  updateDictionaryFromInput := updateDictionary_spec example_spec\<rparr>"

definition disk_with_comments :: filesystem where
  "disk_with_comments =
     \<lparr>directories = {[''data'']},
      files = [[''data'', ''comments.txt''] \<mapsto> ''a b'' @ [CHR 0x0A] @ ''b c'']\<rparr>"

text \<open>
  An identifier codec that parses back what it wrote: each identifier is written after
  its length in unary.
\<close>

definition encode_ids :: "string list \<Rightarrow> string" where
  "encode_ids ids = concat (map (\<lambda>s. replicate (length s) CHR ''+'' @ CHR ''.'' # s) ids)"

fun decode_ids :: "nat \<Rightarrow> string \<Rightarrow> string list option" where
  "decode_ids n [] = (if n = 0 then Some [] else None)"
| "decode_ids n (c # cs) =
     (if c = CHR ''+'' then decode_ids (Suc n) cs
      else if c = CHR ''.'' \<and> n \<le> length cs
        then map_option ((#) (take n cs)) (decode_ids 0 (drop n cs))
      else None)"

definition roundtrip_deps :: deps where
  "roundtrip_deps =
     example_deps\<lparr>JSON_stringify_ids := encode_ids,
                  JSON_parse_ids := (\<lambda>s. case decode_ids 0 s of
                                            None \<Rightarrow> Inl SyntaxError | Some ids \<Rightarrow> Inr (IdsArray ids))\<rparr>"

text \<open>
  A parser that reads the text \<open>{}\<close> as an object, and a disk whose identifier file
  holds that text.
\<close>

definition object_deps :: deps where
  "object_deps =
     example_deps\<lparr>JSON_parse_ids := (\<lambda>s. if s = ''{}'' then Inr IdsNotIterable
                                           else Inl SyntaxError)\<rparr>"

definition disk_with_object_index :: filesystem where
  "disk_with_object_index =
     \<lparr>directories = {[''data'']},
      files = [[''data'', ''videos.json''] \<mapsto> ''{}'']\<rparr>"

section \<open>Metrics: results\<close>

lemma foldl_add_length:
  "foldl (\<lambda>total tokenArray. total + length tokenArray) n xss = n + sum_list (map length xss)"
  by (induction xss arbitrary: n) simp_all

lemma count_list_filter: "count_list xs a = length (filter (\<lambda>x. x = a) xs)"
  by (induction xs) simp_all

text \<open>
  C8. The completed-sequence metric is the number of END tokens over all successor
  lists of the map, duplicates counted: the sum, over the entries, of the occurrences
  of END in the entry's successor list (equally, the multiplicity of END in the
  multiset union of the successor lists).
\<close>

theorem getSentencesProcessed_counts_END:
  "getSentencesProcessed END m = sum_list (map (\<lambda>(key, successors). count_list successors END) m)
   \<and> getSentencesProcessed END m = count (sum_list (map (\<lambda>(key, successors). mset successors) m)) END"
proof
  show "getSentencesProcessed END m =
      sum_list (map (\<lambda>(key, successors). count_list successors END) m)"
    unfolding getSentencesProcessed_def Object_values_def
    by (induction m) (auto simp: count_list_filter)
  show "getSentencesProcessed END m =
      count (sum_list (map (\<lambda>(key, successors). mset successors) m)) END"
    unfolding getSentencesProcessed_def Object_values_def
    by (induction m) (auto simp: count_mset count_list_filter)
qed

text \<open>
  C7. On the empty map the ratio is \<open>0 / 0\<close>, which JavaScript evaluates to
  \<open>NaN\<close>: not a number, and not a sentinel such as zero.
\<close>

theorem getKeyValueRatio_empty_is_NaN: "getKeyValueRatio [] = NaN"
  by (simp add: getKeyValueRatio_def Object_values_def getKeyCount_def Object_keys_def
      js_divide_def)

text \<open>
  C7, as the code has it: the method has no guard. On a map with no key it returns
  \<open>NaN\<close>; on every other map it returns the number of successors divided by the
  number of keys. (Both classes have the same method.)
\<close>

theorem getKeyValueRatio_value:
  "getKeyValueRatio m =
     (if getKeyCount m = 0 then NaN
      else Num (of_nat (sum_list (map (\<lambda>(key, successors). length successors) m))
                / of_nat (getKeyCount m)))"
proof -
  have total: "foldl (\<lambda>total tokenArray. total + length tokenArray) 0 (map snd m) =
      sum_list (map (\<lambda>(key, successors). length successors) m)"
    unfolding foldl_add_length by (induction m) auto
  show ?thesis
    unfolding getKeyValueRatio_def Object_values_def getKeyCount_def Object_keys_def
      js_divide_def total Let_def
    by (cases m) simp_all
qed

section \<open>Candidate selection: results\<close>




section \<open>The quota of a cycle\<close>

lemma quota_room: "MAX_COMMENTS_PER_VIDEO \<le> MAX_COMMENTS_PER_DAY"
  by (simp add: MAX_COMMENTS_PER_VIDEO_def MAX_COMMENTS_PER_DAY_def MAX_QUOTA_PER_DAY_def
      QUOTA_COST_PER_FETCH_def COMMENTS_PER_BATCH_def)

lemma harvest_apiKey: "apiKey (brain (after (harvest d io yt vs n w))) = apiKey (brain w)"
  by (induction vs arbitrary: n w) (auto simp: Let_def split: sum.splits)

lemma harvest_within_ceiling:
  "honoursMaxCount yt \<Longrightarrow> n + MAX_COMMENTS_PER_VIDEO \<le> MAX_COMMENTS_PER_DAY \<Longrightarrow>
   commentsFetched (harvest d io yt vs n w) \<le> MAX_COMMENTS_PER_DAY"
proof (induction vs arbitrary: n w)
  case Nil
  then show ?case by simp
next
  case (Cons v vs)
  show ?case
  proof (cases "fetchAllCommentsForVideo yt v (apiKey (brain w)) MAX_COMMENTS_PER_VIDEO")
    case (Inl e)
    with Cons.prems show ?thesis by simp
  next
    case (Inr comments)
    with Cons.prems(1) have len: "length comments \<le> MAX_COMMENTS_PER_VIDEO"
      by (auto simp: honoursMaxCount_def)
    show ?thesis
    proof (cases "n + length comments + MAX_COMMENTS_PER_VIDEO > MAX_COMMENTS_PER_DAY")
      case True
      with Inr len Cons.prems(2) show ?thesis by (simp add: Let_def)
    next
      case False
      then have "n + length comments + MAX_COMMENTS_PER_VIDEO \<le> MAX_COMMENTS_PER_DAY" by simp
      from Cons.IH [OF Cons.prems(1) this] Inr False show ?thesis by (simp add: Let_def)
    qed
  qed
qed

lemma harvest_counts:
  "\<exists>new. requested (after (harvest d io yt vs n w)) = requested w @ new \<and> prefix new vs \<and>
     commentsFetched (harvest d io yt vs n w) =
       n + sum_list (map (commentsReturned yt (apiKey (brain w))) new)"
proof (induction vs arbitrary: n w)
  case Nil
  then show ?case by simp
next
  case (Cons v vs)
  show ?case
  proof (cases "fetchAllCommentsForVideo yt v (apiKey (brain w)) MAX_COMMENTS_PER_VIDEO")
    case (Inl e)
    then have "commentsReturned yt (apiKey (brain w)) v = 0"
      by (simp add: commentsReturned_def)
    with Inl show ?thesis by (intro exI [of _ "[v]"]) simp
  next
    case (Inr comments)
    have ret: "commentsReturned yt (apiKey (brain w)) v = length comments"
      using Inr by (simp add: commentsReturned_def)
    show ?thesis
    proof (cases "n + length comments + MAX_COMMENTS_PER_VIDEO > MAX_COMMENTS_PER_DAY")
      case True
      with Inr ret show ?thesis by (intro exI [of _ "[v]"]) (simp add: Let_def)
    next
      case False
      define this2 where "this2 = (brain w)\<lparr>map_field :=
              updateDictionaryFromInput d (join [CHR 0x0A] comments) (map_field (brain w)) CHAIN_LENGTH,
            harvestedYoutubeIDs := Set_add v (harvestedYoutubeIDs (brain w))\<rparr>"
      define w1 where "w1 = w\<lparr>requested := requested w @ [v], brain := this2,
          calls := saveCommentsToStorage io this2 comments (calls w)\<rparr>"
      have step: "harvest d io yt (v # vs) n w = harvest d io yt vs (n + length comments) w1"
        using Inr False by (simp add: Let_def w1_def this2_def)
      from Cons.IH [where n = "n + length comments" and w = w1] obtain new where
        new: "requested (after (harvest d io yt vs (n + length comments) w1)) = requested w1 @ new"
          "prefix new vs"
          "commentsFetched (harvest d io yt vs (n + length comments) w1) =
             n + length comments + sum_list (map (commentsReturned yt (apiKey (brain w1))) new)"
        by auto
      have "apiKey (brain w1) = apiKey (brain w)" "requested w1 = requested w @ [v]"
        by (simp_all add: w1_def this2_def)
      with new ret show ?thesis unfolding step by (intro exI [of _ "v # new"]) simp
    qed
  qed
qed

lemma heavy_cycle_stops_at_the_ceiling:
  "commentsFetched (updateMapFromYoutube example_deps ready_disk heavy_youtube example_world) = 250000
   \<and> requested (after (updateMapFromYoutube example_deps ready_disk heavy_youtube example_world)) =
       map (\<lambda>c. [c]) ''abcdefghijklmnopqrstuvwxy''"
  by (simp add: updateMapFromYoutube_def heavy_youtube_def example_world_def
        trending_def Set_has_def Let_def MAX_VIDEOS_PER_UPDATE_def
        MAX_COMMENTS_PER_VIDEO_def MAX_COMMENTS_PER_DAY_def MAX_QUOTA_PER_DAY_def
        QUOTA_COST_PER_FETCH_def COMMENTS_PER_BATCH_def)

text \<open>
  C1. Whatever videos the discovery request lists and however many comments each fetch
  gives back within the maximal count it was asked for, the counter of a cycle does not
  pass the ceiling \<open>MAX_COMMENTS_PER_DAY\<close> by more than
  \<open>MAX_COMMENTS_PER_VIDEO\<close>, and the counter is the number of comments that the
  requests of this cycle gave back. (The loop leaves as soon as one more video could pass
  the ceiling, so the counter in fact stays within the ceiling: \<open>harvest_within_ceiling\<close>.)
\<close>

theorem quota_ceiling_respected:
  assumes "honoursMaxCount yt"
  shows "commentsFetched (updateMapFromYoutube d io yt w)
           \<le> MAX_COMMENTS_PER_DAY + MAX_COMMENTS_PER_VIDEO
         \<and> (\<exists>new. requested (after (updateMapFromYoutube d io yt w)) = requested w @ new
               \<and> commentsFetched (updateMapFromYoutube d io yt w) =
                   sum_list (map (commentsReturned yt (apiKey (brain w))) new))"
proof (cases "fetchTrendingVideos yt (apiKey (brain w))")
  case (Inl e)
  then show ?thesis by (simp add: updateMapFromYoutube_def)
next
  case (Inr videos)
  define c where "c = harvest d io yt (trending (harvestedYoutubeIDs (brain w)) videos) 0 w"
  have same: "commentsFetched (updateMapFromYoutube d io yt w) = commentsFetched c"
    "requested (after (updateMapFromYoutube d io yt w)) = requested (after c)"
    using Inr by (simp_all add: updateMapFromYoutube_def c_def Let_def split: sum.splits)
  have "commentsFetched c \<le> MAX_COMMENTS_PER_DAY"
    unfolding c_def using assms quota_room by (intro harvest_within_ceiling) simp_all
  moreover from harvest_counts [where d = d and io = io and yt = yt and n = 0 and w = w
      and vs = "trending (harvestedYoutubeIDs (brain w)) videos"]
  have "\<exists>new. requested (after c) = requested w @ new
      \<and> commentsFetched c = sum_list (map (commentsReturned yt (apiKey (brain w))) new)"
    unfolding c_def by auto
  ultimately show ?thesis unfolding same by simp
qed

theorem quota_ceiling_respected_witness:
  "honoursMaxCount example_youtube
   \<and> commentsFetched (updateMapFromYoutube example_deps ready_disk example_youtube example_world) = 4
   \<and> commentsFetched (updateMapFromYoutube example_deps ready_disk example_youtube example_world)
       \<le> MAX_COMMENTS_PER_DAY + MAX_COMMENTS_PER_VIDEO
   \<and> honoursMaxCount heavy_youtube
   \<and> commentsFetched (updateMapFromYoutube example_deps ready_disk heavy_youtube example_world) = 250000
   \<and> length (requested (after (updateMapFromYoutube example_deps ready_disk heavy_youtube example_world))) = 25
   \<and> commentsFetched (updateMapFromYoutube example_deps ready_disk heavy_youtube example_world)
       \<le> MAX_COMMENTS_PER_DAY + MAX_COMMENTS_PER_VIDEO"
proof -
  have h: "honoursMaxCount example_youtube"
    by (simp add: honoursMaxCount_def example_youtube_def)
  have v: "commentsFetched (updateMapFromYoutube example_deps ready_disk example_youtube example_world) = 4"
    by (simp add: updateMapFromYoutube_def example_youtube_def example_world_def example_deps_def
        trending_def Set_has_def Set_add_def MAX_VIDEOS_PER_UPDATE_def Let_def
        MAX_COMMENTS_PER_VIDEO_def MAX_COMMENTS_PER_DAY_def MAX_QUOTA_PER_DAY_def
        QUOTA_COST_PER_FETCH_def COMMENTS_PER_BATCH_def)
  have h': "honoursMaxCount heavy_youtube"
    by (simp add: honoursMaxCount_def heavy_youtube_def)
  from quota_ceiling_respected [OF h, where d = example_deps and io = ready_disk
        and w = example_world]
    quota_ceiling_respected [OF h', where d = example_deps and io = ready_disk
        and w = example_world]
    h h' v heavy_cycle_stops_at_the_ceiling
  show ?thesis by simp
qed

section \<open>The first video of a batch\<close>







section \<open>Writing to a path whose directory is missing\<close>

lemma disk_after_ExistsSync:
  "disk_after completed fs (trace @ [ExistsSync p]) = disk_after completed fs trace"
  by (simp add: disk_after_def apply_call_def)

text \<open>
  On Node's disk a writer whose directory is missing makes it, when the parent of the
  directory is there, and issues its write.
\<close>

lemma directory_made_when_parent_exists:
  assumes "\<not> disk_exists (disk_after completed fs trace) (dirname filePath)"
    and "isDirectory (disk_after completed fs trace) (dirname (dirname filePath))"
  shows "saveJSONToFile (nodeDisk completed fs) stringify obj filePath trace =
      trace @ [ExistsSync (dirname filePath), MkdirSync (dirname filePath),
               WriteFile filePath (stringify obj)]"
  using assms
  by (simp add: saveJSONToFile_def nodeDisk_def disk_after_ExistsSync disk_mkdir_def Let_def)

lemma nodeDisk_top_directory_available: "directoryAvailable (nodeDisk completed fs) [name]"
  by (simp add: directoryAvailable_def nodeDisk_def disk_after_ExistsSync disk_mkdir_def
      dirname_def isDirectory_def)

text \<open>
  C9. The three writers test \<open>existsSync\<close> on the directory of the path and call
  \<open>mkdirSync\<close> on it, which makes that one directory. With the path
  \<open>data/brain/map.json\<close> on a disk that has no \<open>data\<close>, \<open>mkdirSync\<close> throws
  \<open>ENOENT\<close>; each writer has then made its two synchronous calls and issues no
  write: the folder is not ensured and nothing is saved.
\<close>

theorem nested_directory_not_created:
  "mkdirSync (nodeDisk False empty_disk) [ExistsSync [''data'', ''brain'']] [''data'', ''brain'']
     = Some ENOENT
   \<and> saveJSONToFile (nodeDisk False empty_disk) (JSON_stringify_map example_deps) []
       [''data'', ''brain'', ''map.json''] [] =
     [ExistsSync [''data'', ''brain''], MkdirSync [''data'', ''brain'']]
   \<and> saveCommentsToStorage (nodeDisk False empty_disk)
       ((brain example_world)\<lparr>pathToCommentStorage := [''data'', ''brain'', ''comments.txt'']\<rparr>)
       [''first''] [] =
     [ExistsSync [''data'', ''brain''], MkdirSync [''data'', ''brain'']]
   \<and> saveMapToStorage example_deps (nodeDisk False empty_disk)
       (example_legacy\<lparr>pathToFile := [''data'', ''brain'', ''markov.json'']\<rparr>) [] =
     [ExistsSync [''data'', ''brain''], MkdirSync [''data'', ''brain'']]"
  by (simp add: saveJSONToFile_def saveCommentsToStorage_def saveMapToStorage_def nodeDisk_def
      disk_after_def apply_call_def disk_exists_def disk_mkdir_def isDirectory_def dirname_def
      empty_disk_def example_world_def example_legacy_def Let_def)

section \<open>Loading at startup\<close>

text \<open>
  When the identifier file cannot be read or parsed, or parses to \<open>null\<close> or to
  an array, \<open>initialise\<close> resolves, and the map it leaves is: the map read from the
  map file when that file can be read and parses to a map; otherwise, when the comment
  file can be read, the map rebuilt from its text (the fresh map of
  \<open>createDictionaryFromInput('', CHAIN_LENGTH)\<close> updated with the text); otherwise
  that fresh map.
\<close>

lemma initialise_resolves:
  assumes "\<forall>json. readFile io trace (pathToVideosProcessedStorage this) = Inr json \<longrightarrow>
      JSON_parse_ids d json \<noteq> Inr IdsNotIterable"
  shows "fst (initialise d io this trace) = Inr ()
   \<and> map_field (fst (snd (initialise d io this trace))) =
       (let trace1 = trace @ [ReadFile (pathToVideosProcessedStorage this)];
            trace2 = trace1 @ [ReadFile (pathToMapStorage this)];
            rebuilt =
              (case readFile io trace2 (pathToCommentStorage this) of
                 Inl e \<Rightarrow> createDictionaryFromInput d [] CHAIN_LENGTH
               | Inr allCommentsEver \<Rightarrow>
                   updateDictionaryFromInput d allCommentsEver
                     (createDictionaryFromInput d [] CHAIN_LENGTH) CHAIN_LENGTH)
        in case readFile io trace1 (pathToMapStorage this) of
             Inl e \<Rightarrow> rebuilt
           | Inr json \<Rightarrow>
               (case JSON_parse_map d json of
                  Inl e \<Rightarrow> rebuilt
                | Inr None \<Rightarrow> rebuilt
                | Inr (Some m) \<Rightarrow> m))"
proof -
  define loaded where "loaded =
    loadJSONFromFile io (JSON_parse_ids d) IdsNull trace (pathToVideosProcessedStorage this)"
  have ids: "fst loaded \<noteq> IdsNotIterable"
    "snd loaded = trace @ [ReadFile (pathToVideosProcessedStorage this)]"
    using assms by (auto simp: loaded_def loadJSONFromFile_def split: sum.splits)
  define this1 where "this1 =
    (case fst loaded of IdsArray xs \<Rightarrow> this\<lparr>harvestedYoutubeIDs := Set_new xs\<rparr> | _ \<Rightarrow> this)"
  have paths: "pathToMapStorage this1 = pathToMapStorage this"
    "pathToCommentStorage this1 = pathToCommentStorage this"
    by (simp_all add: this1_def split: ids_json.splits)
  have split_loaded: "loaded = (fst loaded, snd loaded)" by simp
  show ?thesis
    unfolding initialise_def loadDataFromStorage_def loaded_def [symmetric]
    apply (subst split_loaded)
    using ids paths
    by (cases "fst loaded")
      (auto simp: Let_def loadJSONFromFile_def loadFile_def this1_def
        split: sum.splits option.splits prod.splits)
qed

text \<open>
  The legacy \<open>initialise\<close> catches whatever its load throws and takes the fresh map.
\<close>

lemma initialise_legacy_resolves:
  "fst (initialise_legacy d io this trace) = Inr ()
   \<and> map_legacy (fst (snd (initialise_legacy d io this trace))) =
       (case readFile io trace (pathToFile this) of
          Inl e \<Rightarrow> createDictionaryFromInput d [] CHAIN_LENGTH_legacy
        | Inr json \<Rightarrow>
            (case JSON_parse_structure d json of
               Inl e \<Rightarrow> createDictionaryFromInput d [] CHAIN_LENGTH_legacy
             | Inr (m, ids) \<Rightarrow> m))"
  unfolding initialise_legacy_def loadMapFromStorage_def
  by (auto split: prod.splits sum.splits)

text \<open>
  C5. The loaders catch a missing file and a text that does not parse, and give
  \<open>null\<close>. An identifier file that holds the text of an object is a malformed
  storage file of another kind: the text parses, the value is not \<open>null\<close>, and
  \<open>new Set\<close> throws on it outside every \<open>try\<close>, so \<open>initialise\<close> rejects.
\<close>

theorem initialise_rejects_object_index:
  "readFile (nodeDisk True disk_with_object_index) []
      (pathToVideosProcessedStorage (brain example_world)) = Inr ''{}''
   \<and> JSON_parse_ids object_deps ''{}'' = Inr IdsNotIterable
   \<and> fst (initialise object_deps (nodeDisk True disk_with_object_index) (brain example_world) [])
       = Inl TypeError"
  by (simp add: initialise_def loadDataFromStorage_def loadJSONFromFile_def nodeDisk_def
      disk_after_def disk_read_def isDirectory_def disk_with_object_index_def example_world_def
      object_deps_def)

section \<open>The save at the end of a cycle\<close>

lemma writes_to_saveCommentsToStorage:
  "writes_to q (saveCommentsToStorage io this comments trace) = writes_to q trace"
  by (simp add: saveCommentsToStorage_def writes_to_def Let_def split: option.splits)

lemma writes_to_saveJSONToFile:
  assumes "directoryAvailable io (dirname filePath)"
  shows "writes_to q (saveJSONToFile io stringify obj filePath trace) =
      writes_to q trace @ (if q = filePath then [stringify obj] else [])"
proof (cases "existsSync io trace (dirname filePath)")
  case True
  then show ?thesis by (simp add: saveJSONToFile_def writes_to_def Let_def)
next
  case False
  with assms have "mkdirSync io (trace @ [ExistsSync (dirname filePath)]) (dirname filePath) = None"
    by (simp add: directoryAvailable_def)
  with False show ?thesis by (simp add: saveJSONToFile_def writes_to_def Let_def)
qed

lemma last_saveJSONToFile:
  assumes "directoryAvailable io (dirname filePath)"
  shows "last (saveJSONToFile io stringify obj filePath trace) = WriteFile filePath (stringify obj)"
proof (cases "existsSync io trace (dirname filePath)")
  case True
  then show ?thesis by (simp add: saveJSONToFile_def Let_def)
next
  case False
  with assms have "mkdirSync io (trace @ [ExistsSync (dirname filePath)]) (dirname filePath) = None"
    by (simp add: directoryAvailable_def)
  with False show ?thesis by (simp add: saveJSONToFile_def Let_def)
qed

lemma writes_to_saveDataToStorage:
  assumes "directoryAvailable io (dirname (pathToVideosProcessedStorage this))"
    and "directoryAvailable io (dirname (pathToMapStorage this))"
  shows "writes_to q (saveDataToStorage d io this trace) =
      writes_to q trace
      @ (if q = pathToVideosProcessedStorage this
         then [JSON_stringify_ids d (Array_from (harvestedYoutubeIDs this))] else [])
      @ (if q = pathToMapStorage this then [JSON_stringify_map d (map_field this)] else [])"
  using assms by (simp add: saveDataToStorage_def writes_to_saveJSONToFile Let_def)

lemma writes_to_saveMapToStorage:
  assumes "directoryAvailable io (dirname (pathToFile this))"
  shows "writes_to q (saveMapToStorage d io this trace) =
      writes_to q trace
      @ (if q = pathToFile this
         then [JSON_stringify_structure d
                 (map_legacy this, Array_from (harvestedYoutubeIDs_legacy this))] else [])"
proof (cases "existsSync io trace (dirname (pathToFile this))")
  case True
  then show ?thesis by (simp add: saveMapToStorage_def writes_to_def Let_def)
next
  case False
  with assms have "mkdirSync io (trace @ [ExistsSync (dirname (pathToFile this))])
      (dirname (pathToFile this)) = None"
    by (simp add: directoryAvailable_def)
  with False show ?thesis by (simp add: saveMapToStorage_def writes_to_def Let_def)
qed

lemma harvest_paths:
  "pathToMapStorage (brain (after (harvest d io yt vs fetched w))) = pathToMapStorage (brain w)
   \<and> pathToVideosProcessedStorage (brain (after (harvest d io yt vs fetched w))) =
       pathToVideosProcessedStorage (brain w)
   \<and> pathToCommentStorage (brain (after (harvest d io yt vs fetched w))) =
       pathToCommentStorage (brain w)"
  by (induction vs arbitrary: fetched w) (auto simp: Let_def split: sum.splits)

lemma harvest_writes:
  "writes_to q (calls (after (harvest d io yt vs fetched w))) = writes_to q (calls w)"
  by (induction vs arbitrary: fetched w)
    (auto simp: Let_def writes_to_saveCommentsToStorage split: sum.splits)

lemma harvest_legacy_calls:
  "calls (after (harvest_legacy d yt vs fetched w)) = calls w
   \<and> pathToFile (brain (after (harvest_legacy d yt vs fetched w))) = pathToFile (brain w)"
  by (induction vs arbitrary: fetched w) (auto simp: Let_def split: sum.splits)

text \<open>
  C4. The fetch for the third video is rejected: the call rejects; the first video is
  in the harvested set of the object, its comments were appended, and no write of the
  identifier file or the map file was issued. On a disk where every request completes
  at once, neither file exists after the call.
\<close>

theorem failed_fetch_skips_the_save:
  "outcome (updateMapFromYoutube example_deps (nodeDisk True empty_disk) failing_youtube
      example_world) = Inl RequestFailed
   \<and> harvestedYoutubeIDs (brain (after (updateMapFromYoutube example_deps
        (nodeDisk True empty_disk) failing_youtube example_world))) = [''v2'', ''v1'']
   \<and> calls (after (updateMapFromYoutube example_deps (nodeDisk True empty_disk) failing_youtube
        example_world)) =
       [ExistsSync [''data''], MkdirSync [''data''],
        AppendFile [''data'', ''comments.txt''] (''first'' @ [CHR 0x0A] @ ''v1'')]
   \<and> readFile (nodeDisk True empty_disk)
        (calls (after (updateMapFromYoutube example_deps (nodeDisk True empty_disk)
           failing_youtube example_world))) [''data'', ''videos.json''] = Inl ENOENT
   \<and> readFile (nodeDisk True empty_disk)
        (calls (after (updateMapFromYoutube example_deps (nodeDisk True empty_disk)
           failing_youtube example_world))) [''data'', ''map.json''] = Inl ENOENT"
  by (simp add: updateMapFromYoutube_def trending_def MAX_VIDEOS_PER_UPDATE_def
      MAX_COMMENTS_PER_VIDEO_def MAX_COMMENTS_PER_DAY_def MAX_QUOTA_PER_DAY_def
      QUOTA_COST_PER_FETCH_def COMMENTS_PER_BATCH_def
      Set_has_def Set_add_def saveCommentsToStorage_def nodeDisk_def disk_after_def
      apply_call_def disk_exists_def disk_mkdir_def disk_append_def disk_read_def
      isDirectory_def dirname_def empty_disk_def
      example_world_def example_deps_def failing_youtube_def Let_def)

text \<open>
  C4, as the code has it. A call that ends normally has called \<open>saveDataToStorage\<close>
  as its last step, whether the loop ran to its end or stopped at the quota test: when
  the directories of the two paths are there or can be made, one write of the
  identifier file and one write of the map file were issued, with the harvested set
  and the map of the object as they are after the loop, and the write of the map is the
  last call. A call that rejects has issued no write. The legacy class does the same
  with its one file.
\<close>

theorem normal_cycle_issues_the_save:
  "(outcome (updateMapFromYoutube d io yt w) = Inr ()
      \<and> directoryAvailable io (dirname (pathToVideosProcessedStorage (brain w)))
      \<and> directoryAvailable io (dirname (pathToMapStorage (brain w)))
    \<longrightarrow> writes_to q (calls (after (updateMapFromYoutube d io yt w))) =
          writes_to q (calls w)
          @ (if q = pathToVideosProcessedStorage (brain w)
             then [JSON_stringify_ids d (Array_from
                     (harvestedYoutubeIDs (brain (after (updateMapFromYoutube d io yt w)))))]
             else [])
          @ (if q = pathToMapStorage (brain w)
             then [JSON_stringify_map d
                     (map_field (brain (after (updateMapFromYoutube d io yt w))))]
             else [])
        \<and> last (calls (after (updateMapFromYoutube d io yt w))) =
            WriteFile (pathToMapStorage (brain w))
              (JSON_stringify_map d (map_field (brain (after (updateMapFromYoutube d io yt w))))))
   \<and> (outcome (updateMapFromYoutube d io yt_r w_r) = Inl e
    \<longrightarrow> writes_to q (calls (after (updateMapFromYoutube d io yt_r w_r))) = writes_to q (calls w_r))
   \<and> (outcome (updateMapFromYoutube_legacy d io yt_l w_l) = Inr ()
      \<and> directoryAvailable io (dirname (pathToFile (brain w_l)))
    \<longrightarrow> writes_to q (calls (after (updateMapFromYoutube_legacy d io yt_l w_l))) =
          writes_to q (calls w_l)
          @ (if q = pathToFile (brain w_l)
             then [JSON_stringify_structure d
                     (map_legacy (brain (after (updateMapFromYoutube_legacy d io yt_l w_l))),
                      Array_from (harvestedYoutubeIDs_legacy
                        (brain (after (updateMapFromYoutube_legacy d io yt_l w_l)))))]
             else []))
   \<and> (outcome (updateMapFromYoutube_legacy d io yt_lr w_lr) = Inl e
    \<longrightarrow> calls (after (updateMapFromYoutube_legacy d io yt_lr w_lr)) = calls w_lr)"
proof -
  have normal: "writes_to q (calls (after (updateMapFromYoutube d io yt w))) =
          writes_to q (calls w)
          @ (if q = pathToVideosProcessedStorage (brain w)
             then [JSON_stringify_ids d (Array_from
                     (harvestedYoutubeIDs (brain (after (updateMapFromYoutube d io yt w)))))]
             else [])
          @ (if q = pathToMapStorage (brain w)
             then [JSON_stringify_map d
                     (map_field (brain (after (updateMapFromYoutube d io yt w))))]
             else [])
        \<and> last (calls (after (updateMapFromYoutube d io yt w))) =
            WriteFile (pathToMapStorage (brain w))
              (JSON_stringify_map d (map_field (brain (after (updateMapFromYoutube d io yt w)))))"
    if ok: "outcome (updateMapFromYoutube d io yt w) = Inr ()"
      and dv: "directoryAvailable io (dirname (pathToVideosProcessedStorage (brain w)))"
      and dm: "directoryAvailable io (dirname (pathToMapStorage (brain w)))"
  proof -
    from ok obtain videos where tr: "fetchTrendingVideos yt (apiKey (brain w)) = Inr videos"
      by (cases "fetchTrendingVideos yt (apiKey (brain w))")
        (auto simp: updateMapFromYoutube_def)
    define c where "c = harvest d io yt (trending (harvestedYoutubeIDs (brain w)) videos) 0 w"
    from ok tr have oc: "outcome c = Inr ()"
      by (cases "outcome c") (auto simp: updateMapFromYoutube_def c_def Let_def)
    have U: "updateMapFromYoutube d io yt w =
        c\<lparr>after := (after c)\<lparr>calls := saveDataToStorage d io (brain (after c)) (calls (after c))\<rparr>\<rparr>"
      using tr oc by (simp add: updateMapFromYoutube_def c_def [symmetric] Let_def)
    have paths: "pathToVideosProcessedStorage (brain (after c)) = pathToVideosProcessedStorage (brain w)"
      "pathToMapStorage (brain (after c)) = pathToMapStorage (brain w)"
      by (simp_all add: c_def harvest_paths)
    have w: "writes_to q (calls (after c)) = writes_to q (calls w)"
      by (simp add: c_def harvest_writes)
    have "last (saveDataToStorage d io (brain (after c)) (calls (after c))) =
        WriteFile (pathToMapStorage (brain w)) (JSON_stringify_map d (map_field (brain (after c))))"
      using dm paths by (simp add: saveDataToStorage_def last_saveJSONToFile Let_def)
    then show ?thesis
      using dv dm paths w by (simp add: U writes_to_saveDataToStorage)
  qed
  have rejected: "writes_to q (calls (after (updateMapFromYoutube d io yt_r w_r))) =
      writes_to q (calls w_r)"
    if "outcome (updateMapFromYoutube d io yt_r w_r) = Inl e"
    using that
    by (auto simp: updateMapFromYoutube_def Let_def harvest_writes split: sum.splits)
  have legacy: "writes_to q (calls (after (updateMapFromYoutube_legacy d io yt_l w_l))) =
          writes_to q (calls w_l)
          @ (if q = pathToFile (brain w_l)
             then [JSON_stringify_structure d
                     (map_legacy (brain (after (updateMapFromYoutube_legacy d io yt_l w_l))),
                      Array_from (harvestedYoutubeIDs_legacy
                        (brain (after (updateMapFromYoutube_legacy d io yt_l w_l)))))]
             else [])"
    if ok: "outcome (updateMapFromYoutube_legacy d io yt_l w_l) = Inr ()"
      and dl: "directoryAvailable io (dirname (pathToFile (brain w_l)))"
  proof -
    from ok obtain videos where tr: "fetchTrendingVideos yt_l (apiKey_legacy (brain w_l)) = Inr videos"
      by (cases "fetchTrendingVideos yt_l (apiKey_legacy (brain w_l))")
        (auto simp: updateMapFromYoutube_legacy_def)
    define c where "c = harvest_legacy d yt_l
        (trending_legacy (harvestedYoutubeIDs_legacy (brain w_l)) videos) 0 w_l"
    from ok tr have oc: "outcome c = Inr ()"
      by (cases "outcome c") (auto simp: updateMapFromYoutube_legacy_def c_def Let_def)
    have U: "updateMapFromYoutube_legacy d io yt_l w_l =
        c\<lparr>after := (after c)\<lparr>calls := saveMapToStorage d io (brain (after c)) (calls (after c))\<rparr>\<rparr>"
      using tr oc by (simp add: updateMapFromYoutube_legacy_def c_def [symmetric] Let_def)
    have same: "calls (after c) = calls w_l" "pathToFile (brain (after c)) = pathToFile (brain w_l)"
      by (simp_all add: c_def harvest_legacy_calls)
    show ?thesis
      using dl same by (simp add: U writes_to_saveMapToStorage)
  qed
  have legacy_rejected: "calls (after (updateMapFromYoutube_legacy d io yt_lr w_lr)) = calls w_lr"
    if "outcome (updateMapFromYoutube_legacy d io yt_lr w_lr) = Inl e"
    using that
    by (auto simp: updateMapFromYoutube_legacy_def Let_def harvest_legacy_calls split: sum.splits)
  from normal rejected legacy legacy_rejected show ?thesis by blast
qed

lemmas cycle_defs =
  updateMapFromYoutube_def updateMapFromYoutube_legacy_def trending_def trending_legacy_def
  MAX_VIDEOS_PER_UPDATE_def MAX_VIDEOS_PER_UPDATE_legacy_def
  MAX_COMMENTS_PER_VIDEO_def MAX_COMMENTS_PER_VIDEO_legacy_def MAX_COMMENTS_PER_DAY_def
  MAX_QUOTA_PER_DAY_def QUOTA_COST_PER_FETCH_def COMMENTS_PER_BATCH_def
  Set_has_def Set_add_def Set_new_def Array_from_def
  saveCommentsToStorage_def saveDataToStorage_def saveJSONToFile_def saveMapToStorage_def
  nodeDisk_def disk_after_def apply_call_def disk_exists_def disk_mkdir_def disk_append_def
  disk_write_def disk_read_def isDirectory_def dirname_def empty_disk_def
  example_world_def example_legacy_world_def example_legacy_def example_deps_def
  example_youtube_def failing_youtube_def Let_def

theorem normal_cycle_issues_the_save_witness:
  "writes_to [''data'', ''videos.json'']
      (calls (after (updateMapFromYoutube example_deps (nodeDisk True empty_disk)
         example_youtube example_world))) = [''v2v1v3'']
   \<and> last (calls (after (updateMapFromYoutube example_deps (nodeDisk True empty_disk)
         example_youtube example_world))) =
       WriteFile [''data'', ''map.json''] (''first'' @ [CHR 0x0A] @ ''v1first'' @ [CHR 0x0A] @ ''v3'')
   \<and> writes_to [''data'', ''videos.json'']
      (calls (after (updateMapFromYoutube example_deps (nodeDisk True empty_disk)
         failing_youtube example_world))) = []
   \<and> writes_to [''data'', ''markov.json'']
      (calls (after (updateMapFromYoutube_legacy example_deps (nodeDisk True empty_disk)
         example_youtube example_legacy_world))) = [''v2v1v3'']
   \<and> calls (after (updateMapFromYoutube_legacy example_deps (nodeDisk True empty_disk)
         failing_youtube example_legacy_world)) = []"
proof -
  have dir: "directoryAvailable (nodeDisk True empty_disk) [''data'']"
    by (rule nodeDisk_top_directory_available)
  have paths: "pathToVideosProcessedStorage (brain example_world) = [''data'', ''videos.json'']"
    "pathToMapStorage (brain example_world) = [''data'', ''map.json'']"
    "pathToFile (brain example_legacy_world) = [''data'', ''markov.json'']"
    "calls example_world = []" "calls example_legacy_world = []"
    by (simp_all add: example_world_def example_legacy_world_def example_legacy_def)
  have normal: "outcome (updateMapFromYoutube example_deps (nodeDisk True empty_disk)
        example_youtube example_world) = Inr ()"
    "harvestedYoutubeIDs (brain (after (updateMapFromYoutube example_deps
        (nodeDisk True empty_disk) example_youtube example_world))) = [''v2'', ''v1'', ''v3'']"
    "map_field (brain (after (updateMapFromYoutube example_deps
        (nodeDisk True empty_disk) example_youtube example_world))) =
       [(''first'' @ [CHR 0x0A] @ ''v1'', [''__END__'']),
        (''first'' @ [CHR 0x0A] @ ''v3'', [''__END__''])]"
    by (simp_all add: cycle_defs)
  have rejected: "outcome (updateMapFromYoutube example_deps (nodeDisk True empty_disk)
        failing_youtube example_world) = Inl RequestFailed"
    by (simp add: cycle_defs)
  have legacy: "outcome (updateMapFromYoutube_legacy example_deps (nodeDisk True empty_disk)
        example_youtube example_legacy_world) = Inr ()"
    "harvestedYoutubeIDs_legacy (brain (after (updateMapFromYoutube_legacy example_deps
        (nodeDisk True empty_disk) example_youtube example_legacy_world))) =
       [''v2'', ''v1'', ''v3'']"
    "outcome (updateMapFromYoutube_legacy example_deps (nodeDisk True empty_disk)
        failing_youtube example_legacy_world) = Inl RequestFailed"
    by (simp_all add: cycle_defs)
  have codec: "JSON_stringify_ids example_deps = concat"
    "JSON_stringify_map example_deps = (\<lambda>m. concat (map fst m))"
    "JSON_stringify_structure example_deps = (\<lambda>(m, ids). concat ids)"
    by (simp_all add: example_deps_def)
  show ?thesis
    using normal_cycle_issues_the_save [where d = example_deps
        and io = "nodeDisk True empty_disk" and yt = example_youtube and w = example_world
        and q = "[''data'', ''videos.json'']" and yt_r = failing_youtube and w_r = example_world
        and e = RequestFailed and yt_l = example_youtube and w_l = example_legacy_world
        and yt_lr = failing_youtube and w_lr = example_legacy_world]
      normal_cycle_issues_the_save [where d = example_deps
        and io = "nodeDisk True empty_disk" and yt = example_youtube and w = example_world
        and q = "[''data'', ''markov.json'']" and yt_r = failing_youtube and w_r = example_world
        and e = RequestFailed and yt_l = example_youtube and w_l = example_legacy_world
        and yt_lr = failing_youtube and w_lr = example_legacy_world]
      dir
    by (simp add: paths normal rejected legacy codec dirname_def Array_from_def writes_to_def)
qed

section \<open>Rebuilding the map from the comment file\<close>

lemma createDictionary_spec_empty: "tokenize sp [] = [] \<Longrightarrow> createDictionary_spec sp [] K = []"
  by (simp add: createDictionary_spec_def observations_def)

lemma rebuild_is_build:
  "tokenize sp [] = [] \<Longrightarrow>
   updateDictionary_spec sp text (createDictionary_spec sp [] K) K = createDictionary_spec sp text K"
  by (simp add: createDictionary_spec_empty) (simp add: updateDictionary_spec_def createDictionary_spec_def)

lemma example_rebuilt_map:
  "createDictionary_spec example_spec (''a b'' @ [CHR 0x0A] @ ''b c'') CHAIN_LENGTH =
     [(''__START__|__START__|__START__'', [''a'', ''b'']),
      (''__START__|__START__|a'', [''b'']),
      (''__START__|a|b'', [''__END__'']),
      (''__START__|__START__|b'', [''c'']),
      (''__START__|b|c'', [''__END__''])]"
  by code_simp

text \<open>
  When the identifier file gives no value that cannot be iterated, the map file gives no
  map and the comment file can be read, \<open>initialise\<close> resolves with the map that the
  builder makes from the text of the comment file at the same chain length: the same
  list of entries, hence the same keys and for each key the same multiset of
  successors. The text is any text, so also any text that earlier appends of
  \<open>saveCommentsToStorage\<close> left. The markov module is the one modelled from the spec
  above, for any tokenizer that gives no unit on the empty text. The calls that
  \<open>initialise\<close> makes after its three reads are those of \<open>saveDataToStorage\<close>.
\<close>

lemma rebuild_from_comment_log:
  assumes ids: "\<forall>json. readFile io trace (pathToVideosProcessedStorage this) = Inr json \<longrightarrow>
      JSON_parse_ids d json \<noteq> Inr IdsNotIterable"
    and nomap: "fst (loadJSONFromFile io (JSON_parse_map d) None
        (trace @ [ReadFile (pathToVideosProcessedStorage this)]) (pathToMapStorage this)) = None"
    and comments: "readFile io (trace @ [ReadFile (pathToVideosProcessedStorage this),
        ReadFile (pathToMapStorage this)]) (pathToCommentStorage this) = Inr allCommentsEver"
    and "createDictionaryFromInput d = createDictionary_spec sp"
    and "updateDictionaryFromInput d = updateDictionary_spec sp"
    and "tokenize sp [] = []"
  shows "fst (initialise d io this trace) = Inr ()
    \<and> map_field (fst (snd (initialise d io this trace))) =
        createDictionary_spec sp allCommentsEver CHAIN_LENGTH
    \<and> set (Object_keys (map_field (fst (snd (initialise d io this trace))))) =
        set (Object_keys (createDictionary_spec sp allCommentsEver CHAIN_LENGTH))
    \<and> (\<forall>key. mset (successors_of (map_field (fst (snd (initialise d io this trace)))) key) =
           mset (successors_of (createDictionary_spec sp allCommentsEver CHAIN_LENGTH) key))
    \<and> snd (snd (initialise d io this trace)) =
        saveDataToStorage d io (fst (snd (initialise d io this trace)))
          (trace @ [ReadFile (pathToVideosProcessedStorage this), ReadFile (pathToMapStorage this),
                    ReadFile (pathToCommentStorage this)])"
proof -
  have rebuilt: "updateDictionaryFromInput d allCommentsEver
      (createDictionaryFromInput d [] CHAIN_LENGTH) CHAIN_LENGTH =
      createDictionary_spec sp allCommentsEver CHAIN_LENGTH"
    using assms(4,5,6) by (simp add: rebuild_is_build)
  have m: "map_field (fst (snd (initialise d io this trace))) =
      createDictionary_spec sp allCommentsEver CHAIN_LENGTH"
    using initialise_resolves [OF ids] nomap comments rebuilt
    by (auto simp: Let_def loadJSONFromFile_def split: sum.splits option.splits)
  define loaded where "loaded =
    loadJSONFromFile io (JSON_parse_ids d) IdsNull trace (pathToVideosProcessedStorage this)"
  have l: "fst loaded \<noteq> IdsNotIterable"
    "snd loaded = trace @ [ReadFile (pathToVideosProcessedStorage this)]"
    using ids by (auto simp: loaded_def loadJSONFromFile_def split: sum.splits)
  have split_loaded: "loaded = (fst loaded, snd loaded)" by simp
  have calls: "snd (snd (initialise d io this trace)) =
        saveDataToStorage d io (fst (snd (initialise d io this trace)))
          (trace @ [ReadFile (pathToVideosProcessedStorage this), ReadFile (pathToMapStorage this),
                    ReadFile (pathToCommentStorage this)])"
    unfolding initialise_def loadDataFromStorage_def loaded_def [symmetric]
    apply (subst (1 2) split_loaded)
    using l nomap comments
    by (cases "fst loaded")
      (auto simp: Let_def loadJSONFromFile_def loadFile_def
        split: sum.splits option.splits prod.splits)
  from initialise_resolves [OF ids] m calls show ?thesis by simp
qed

text \<open>
  C6. The map file is absent and the comment file is there. \<open>initialise\<close> rebuilds
  the map and awaits \<open>saveDataToStorage\<close>, which issues the write of the identifier
  file and the write of the map file and awaits neither: \<open>initialise\<close> resolves when
  the two requests have been issued. On the disk on which no issued request has
  completed yet the map file is still absent when \<open>initialise\<close> has returned; it
  holds the rebuilt map once the requests have completed.
\<close>

theorem rebuilt_map_write_not_awaited:
  "fst (initialise example_deps (nodeDisk False disk_with_comments) (brain example_world) [])
     = Inr ()
   \<and> map_field (fst (snd (initialise example_deps (nodeDisk False disk_with_comments)
        (brain example_world) []))) = [(''a b'' @ [CHR 0x0A] @ ''b c'', [''__END__''])]
   \<and> snd (snd (initialise example_deps (nodeDisk False disk_with_comments)
        (brain example_world) [])) =
       [ReadFile [''data'', ''videos.json''], ReadFile [''data'', ''map.json''],
        ReadFile [''data'', ''comments.txt''],
        ExistsSync [''data''], WriteFile [''data'', ''videos.json''] ''v2'',
        ExistsSync [''data''],
        WriteFile [''data'', ''map.json''] (''a b'' @ [CHR 0x0A] @ ''b c'')]
   \<and> readFile (nodeDisk False disk_with_comments)
        (snd (snd (initialise example_deps (nodeDisk False disk_with_comments)
           (brain example_world) []))) [''data'', ''map.json''] = Inl ENOENT
   \<and> readFile (nodeDisk True disk_with_comments)
        (snd (snd (initialise example_deps (nodeDisk False disk_with_comments)
           (brain example_world) []))) [''data'', ''map.json'']
       = Inr (''a b'' @ [CHR 0x0A] @ ''b c'')"
proof -
  have run: "initialise example_deps (nodeDisk False disk_with_comments) (brain example_world) [] =
    (Inr (),
     (brain example_world)\<lparr>map_field := [(''a b'' @ [CHR 0x0A] @ ''b c'', [''__END__''])]\<rparr>,
     [ReadFile [''data'', ''videos.json''], ReadFile [''data'', ''map.json''],
      ReadFile [''data'', ''comments.txt''],
      ExistsSync [''data''], WriteFile [''data'', ''videos.json''] ''v2'',
      ExistsSync [''data''],
      WriteFile [''data'', ''map.json''] (''a b'' @ [CHR 0x0A] @ ''b c'')])"
    by (simp add: initialise_def loadDataFromStorage_def loadJSONFromFile_def loadFile_def
        saveDataToStorage_def saveJSONToFile_def Array_from_def
        nodeDisk_def disk_after_def apply_call_def disk_exists_def disk_read_def
        isDirectory_def dirname_def disk_with_comments_def example_world_def example_deps_def
        Let_def)
  show ?thesis
    unfolding run
    by (simp add: nodeDisk_def disk_after_def apply_call_def disk_read_def disk_write_def
        isDirectory_def dirname_def disk_with_comments_def)
qed

section \<open>No video is fetched twice\<close>
















lemmas restart_defs =
  restart_def initialise_def loadDataFromStorage_def loadJSONFromFile_def loadFile_def
  roundtrip_deps_def encode_ids_def repeating_youtube_def ready_disk_def CHAIN_LENGTH_def









text \<open>
  The condition on the identifier file is needed: on a disk on which the writes that a
  cycle issued have not completed when the process restarts, the restart finds no
  identifier file and the next cycle fetches the same videos again.
\<close>

lemma restart_before_the_writes_complete:
  "requested (run roundtrip_deps (nodeDisk False empty_disk)
     [Cycle example_youtube, Restart, Cycle example_youtube] example_world) =
     [''v1'', ''v3'', ''v1'', ''v2'', ''v3'']
   \<and> \<not> indexWrittenAtRestarts roundtrip_deps (nodeDisk False empty_disk)
     [Cycle example_youtube, Restart, Cycle example_youtube] example_world"
  by (simp add: cycle_defs restart_defs indexReadsBack_def last_write_def writes_to_def)



end
